theory Spec2Isabelle
  imports Main "HOL-Library.Sublist"
begin

section \<open>Strings of the Python source\<close>

text \<open>
  Python strings are modelled as \<^typ>\<open>string\<close>. The text a connection receives is
  decoded as ASCII (\<^verbatim>\<open>TcpSocket.recv\<close>), so one \<^typ>\<open>char\<close> is one character.
\<close>

abbreviation NL :: char where "NL \<equiv> CHR 0x0A"
abbreviation CR :: char where "CR \<equiv> CHR 0x0D"

text \<open>\<^verbatim>\<open>request.replace("\r", "")\<close>: every carriage return is removed.\<close>

definition replace_cr :: "string \<Rightarrow> string" where
  "replace_cr s = filter (\<lambda>c. c \<noteq> CR) s"

text \<open>
  \<^verbatim>\<open>str.find(sub)\<close>: the lowest index at which \<open>sub\<close> occurs, or \<open>-1\<close>.
  \<open>find_from s sub i\<close> searches the rest \<open>s\<close> of the string that starts at index \<open>i\<close>.
\<close>

fun find_from :: "string \<Rightarrow> string \<Rightarrow> nat \<Rightarrow> int" where
  "find_from [] sub i = (if sub = [] then int i else - 1)"
| "find_from (c # cs) sub i =
     (if prefix sub (c # cs) then int i else find_from cs sub (Suc i))"

definition str_find :: "string \<Rightarrow> string \<Rightarrow> int" where
  "str_find s sub = find_from s sub 0"

text \<open>
  \<^verbatim>\<open>str.rfind(sub)\<close>: the highest index at which \<open>sub\<close> occurs, or \<open>-1\<close>.
  The scan runs left to right and remembers the last match in \<open>best\<close>.
\<close>

fun rfind_from :: "string \<Rightarrow> string \<Rightarrow> nat \<Rightarrow> int \<Rightarrow> int" where
  "rfind_from [] sub i best = (if sub = [] then int i else best)"
| "rfind_from (c # cs) sub i best =
     rfind_from cs sub (Suc i) (if prefix sub (c # cs) then int i else best)"

definition str_rfind :: "string \<Rightarrow> string \<Rightarrow> int" where
  "str_rfind s sub = rfind_from s sub 0 (- 1)"

text \<open>
  The slice \<^verbatim>\<open>s[:pos]\<close>. A negative \<open>pos\<close> counts from the end of the string, and a
  bound outside the string is clamped, as Python does.
\<close>

definition slice_to :: "string \<Rightarrow> int \<Rightarrow> string" where
  "slice_to s pos =
     (if 0 \<le> pos then take (nat pos) s else take (nat (int (length s) + pos)) s)"

text \<open>
  \<^verbatim>\<open>urllib.parse.unquote\<close> of the standard library, on ASCII text: each escape
  \<^verbatim>\<open>%xx\<close> with two hexadecimal digits (either case) becomes the byte \<open>xx\<close>; a
  \<^verbatim>\<open>%\<close> that is not followed by two hexadecimal digits stays as it is. The library
  then reads the bytes as UTF-8; here the result is the byte string itself, which is the
  same text whenever the escapes spell valid UTF-8.
\<close>

definition hex_digit :: "char \<Rightarrow> nat option" where
  "hex_digit c =
     (let n = of_char c :: nat in
      if 48 \<le> n \<and> n \<le> 57 then Some (n - 48)
      else if 65 \<le> n \<and> n \<le> 70 then Some (n - 55)
      else if 97 \<le> n \<and> n \<le> 102 then Some (n - 87)
      else None)"

fun unquote :: "string \<Rightarrow> string" where
  "unquote (c # h1 # h2 # cs) =
     (if c = CHR ''%'' then
        (case (hex_digit h1, hex_digit h2) of
           (Some a, Some b) \<Rightarrow> char_of (16 * a + b) # unquote cs
         | _ \<Rightarrow> c # unquote (h1 # h2 # cs))
      else c # unquote (h1 # h2 # cs))"
| "unquote cs = cs"

section \<open>NetMessage\<close>

text \<open>
  The fields of \<^verbatim>\<open>NetMessage\<close>. \<open>listen_since\<close> is a \<^verbatim>\<open>datetime\<close> or
  \<^verbatim>\<open>None\<close>, \<open>result\<close> a \<^verbatim>\<open>str\<close> or \<^verbatim>\<open>None\<close>. \<open>waiters\<close> is the state of
  the field \<^verbatim>\<open>_condition\<close>: the number of threads that sleep in its \<^verbatim>\<open>wait()\<close>.
\<close>

type_synonym datetime = nat

record NetMessage =
  is_http :: bool
  waiters :: nat
  listening :: bool
  listen_since :: "datetime option"
  disconnect :: bool
  request :: string
  result :: "string option"

definition NetMessage_init :: "bool \<Rightarrow> NetMessage" where
  "NetMessage_init http =
     \<lparr>is_http = http, waiters = 0, listening = False, listen_since = None,
      disconnect = False, request = [], result = None\<rparr>"

definition is_listening :: "NetMessage \<Rightarrow> bool \<times> datetime option" where
  "is_listening m = (listening m, listen_since m)"

definition is_disconnect :: "NetMessage \<Rightarrow> bool" where
  "is_disconnect m = disconnect m"

text \<open>
  \<^verbatim>\<open>NetMessage.add\<close>: the returned pair is the return value and the message after the
  call.
\<close>

definition add :: "NetMessage \<Rightarrow> string \<Rightarrow> bool \<times> NetMessage" where
  "add m req =
     (let m1 = m\<lparr>request := request m @ replace_cr req\<rparr>;
          pos = str_find (request m1) (if is_http m1 then [NL, NL] else [NL])
      in if pos \<noteq> - 1 then
           (if is_http m1 then
              (let pos1 = str_find (request m1) [NL];
                   m2 = m1\<lparr>request := slice_to (request m1) pos1\<rparr>;
                   pos2 = str_rfind (request m2) '' HTTP/'';
                   m3 = (if pos2 \<noteq> - 1
                         then m2\<lparr>request := slice_to (request m2) pos2\<rparr> else m2)
               in (True, m3\<lparr>request := unquote (request m3)\<rparr>))
            else if pos + 1 = int (length (request m1)) then
              (True, m1\<lparr>request := slice_to (request m1) pos\<rparr>)
            else (True, m1))
         else (length (request m1) = 0 \<and> listening m1, m1))"

text \<open>
  \<^verbatim>\<open>threading.Condition.notify()\<close> wakes at most one of the threads that sleep in
  \<^verbatim>\<open>wait()\<close>. The first component is the number of threads woken.
\<close>

definition notify_one :: "NetMessage \<Rightarrow> nat \<times> NetMessage" where
  "notify_one m =
     (let woken = min 1 (waiters m) in (woken, m\<lparr>waiters := waiters m - woken\<rparr>))"

text \<open>
  \<^verbatim>\<open>NetMessage.set_result\<close>. The body runs while the condition's lock is held, so it is
  one transition of the message. The first component of the value is the number of
  threads that \<^verbatim>\<open>notify()\<close> woke.
\<close>

definition set_result ::
    "string \<Rightarrow> bool \<Rightarrow> datetime option \<Rightarrow> bool \<Rightarrow> NetMessage \<Rightarrow> nat \<times> NetMessage" where
  "set_result res lst listen_until disc m =
     notify_one (m\<lparr>result := Some res, listening := lst,
                   listen_since := listen_until, disconnect := disc\<rparr>)"

text \<open>
  \<^verbatim>\<open>threading.Condition.wait()\<close>: the calling thread joins the waiters, releases the
  lock and sleeps. \<open>env\<close> is what the other threads have made of the message when the
  thread runs again with the lock held; \<open>None\<close> when the thread is never woken.
\<close>

definition cond_wait :: "(NetMessage \<Rightarrow> NetMessage option) \<Rightarrow> NetMessage \<Rightarrow> NetMessage option" where
  "cond_wait env m = env (m\<lparr>waiters := Suc (waiters m)\<rparr>)"

text \<open>Another thread posts a result while the thread sleeps, and its \<^verbatim>\<open>notify()\<close> wakes it.\<close>

definition posted ::
    "string \<Rightarrow> bool \<Rightarrow> datetime option \<Rightarrow> bool \<Rightarrow> NetMessage \<Rightarrow> NetMessage option" where
  "posted res lst listen_until disc m = Some (snd (set_result res lst listen_until disc m))"


text \<open>No thread ever wakes the sleeping thread.\<close>

definition never :: "NetMessage \<Rightarrow> NetMessage option" where
  "never m = None"

text \<open>
  \<^verbatim>\<open>NetMessage.get_result\<close>. The value is \<open>None\<close> when the call does not return;
  otherwise it holds the returned value (Python's \<^verbatim>\<open>None\<close> or a string) and the message
  after the call.
\<close>

definition get_result ::
    "(NetMessage \<Rightarrow> NetMessage option) \<Rightarrow> NetMessage \<Rightarrow> (string option \<times> NetMessage) option" where
  "get_result env m =
     (case (if result m = None then cond_wait env m else Some m) of
        None \<Rightarrow> None
      | Some m1 \<Rightarrow>
          (let m2 = m1\<lparr>request := []\<rparr>;
               ret = result m2;
               m3 = m2\<lparr>result := None\<rparr>
           in Some (ret, m3)))"

section \<open>TcpSocket and TcpServer\<close>

type_synonym fd = int

datatype error = OSError nat | AttributeError | UnicodeDecodeError

text \<open>
  What the operating system answers to the calls of one \<^verbatim>\<open>TcpServer.start\<close>:
  \<^verbatim>\<open>socket.socket\<close> gives a descriptor or raises, and \<^verbatim>\<open>setsockopt\<close>, \<^verbatim>\<open>bind\<close>
  and \<^verbatim>\<open>listen\<close> succeed (\<open>None\<close>) or raise.
\<close>

record os_net =
  os_socket :: "error + fd"
  os_setsockopt :: "fd \<Rightarrow> error option"
  os_bind :: "fd \<Rightarrow> string \<Rightarrow> int \<Rightarrow> error option"
  os_listen :: "fd \<Rightarrow> int \<Rightarrow> error option"

record TcpSocket =
  sock :: fd

record TcpServer =
  srv_port :: int
  srv_addr :: string
  srv_backlog :: int
  srv_listening :: bool
  srv_socket :: "fd option"

definition TcpServer_init :: "int \<Rightarrow> string \<Rightarrow> int \<Rightarrow> TcpServer" where
  "TcpServer_init port addr backlog =
     \<lparr>srv_port = port, srv_addr = addr,
      srv_backlog = (if backlog \<ge> 0 then backlog else 0),
      srv_listening = False, srv_socket = None\<rparr>"

text \<open>
  The handler \<^verbatim>\<open>except OSError\<close> of \<^verbatim>\<open>TcpServer.start\<close>: it closes the socket, if there
  is one, resets the field and raises the error again. Any other exception passes through.
\<close>

definition start_except :: "error \<Rightarrow> TcpServer \<Rightarrow> (error + unit) \<times> TcpServer" where
  "start_except e s =
     (case e of
        OSError n \<Rightarrow> (Inl e, s\<lparr>srv_socket := None\<rparr>)
      | _ \<Rightarrow> (Inl e, s))"

text \<open>
  \<^verbatim>\<open>TcpServer.start\<close>. The first component is \<open>Inl e\<close> when the call raises \<open>e\<close>; the
  second is the server object after the call.
\<close>

definition start :: "os_net \<Rightarrow> TcpServer \<Rightarrow> (error + unit) \<times> TcpServer" where
  "start os s =
     (if srv_listening s then (Inr (), s)
      else
        (case os_socket os of
           Inl e \<Rightarrow> start_except e s
         | Inr f \<Rightarrow>
             (let s1 = s\<lparr>srv_socket := Some f\<rparr> in
              case os_setsockopt os f of
                Some e \<Rightarrow> start_except e s1
              | None \<Rightarrow>
                  (case os_bind os f (srv_addr s1) (srv_port s1) of
                     Some e \<Rightarrow> start_except e s1
                   | None \<Rightarrow>
                       (case os_listen os f (srv_backlog s1) of
                          Some e \<Rightarrow> start_except e s1
                        | None \<Rightarrow> (Inr (), s1\<lparr>srv_listening := True\<rparr>))))))"

text \<open>
  \<^verbatim>\<open>TcpServer.new_socket\<close>; \<open>accept\<close> is the answer of \<^verbatim>\<open>accept()\<close> on a listening
  descriptor. An \<^verbatim>\<open>OSError\<close> is caught and gives \<^verbatim>\<open>None\<close>. A listening server without
  a socket object would raise \<^verbatim>\<open>AttributeError\<close>.
\<close>

definition new_socket :: "(fd \<Rightarrow> error + fd) \<Rightarrow> TcpServer \<Rightarrow> error + TcpSocket option" where
  "new_socket accept s =
     (if \<not> srv_listening s then Inr None
      else
        (case srv_socket s of
           None \<Rightarrow> Inl AttributeError
         | Some lfd \<Rightarrow>
             (case accept lfd of
                Inl (OSError n) \<Rightarrow> Inr None
              | Inl e \<Rightarrow> Inl e
              | Inr c \<Rightarrow> Inr (Some \<lparr>sock = c\<rparr>))))"

definition socket_fd :: "TcpServer \<Rightarrow> error + fd" where
  "socket_fd s =
     (if \<not> srv_listening s then Inr (- 1)
      else (case srv_socket s of None \<Rightarrow> Inl AttributeError | Some f \<Rightarrow> Inr f))"

section \<open>Notify and Connection\<close>

record Notify =
  recvfd :: fd
  sendfd :: fd

definition notify_fd :: "Notify \<Rightarrow> fd" where
  "notify_fd n = recvfd n"

record Connection =
  conn_notify :: Notify
  conn_socket :: TcpSocket
  conn_is_http :: bool
  conn_id :: nat

text \<open>
  \<^verbatim>\<open>Connection.__init__\<close>: \<open>pipe\<close> is the pair of descriptors that \<^verbatim>\<open>os.pipe()\<close> gives
  the new \<^verbatim>\<open>Notify\<close>, \<open>ids\<close> the class counter \<^verbatim>\<open>Connection._ids\<close>, returned
  incremented.
\<close>

definition Connection_init :: "fd \<times> fd \<Rightarrow> TcpSocket \<Rightarrow> bool \<Rightarrow> nat \<Rightarrow> Connection \<times> nat" where
  "Connection_init pipe s http ids =
     (\<lparr>conn_notify = \<lparr>recvfd = fst pipe, sendfd = snd pipe\<rparr>, conn_socket = s,
       conn_is_http = http, conn_id = ids + 1\<rparr>, ids + 1)"

text \<open>
  The truth value Python gives a tuple in a condition: a tuple is false only when it is
  empty, and a pair has two components.
\<close>

definition tuple_len :: "'a \<times> 'b \<Rightarrow> nat" where
  "tuple_len t = 2"

definition truth_tuple :: "'a \<times> 'b \<Rightarrow> bool" where
  "truth_tuple t = (tuple_len t \<noteq> 0)"

text \<open>
  The calls a connection thread makes, in the order it makes them, and what it has put
  on the queue and sent on its socket.
\<close>

datatype conn_event = IsValid | Recv | Add string | Put | GetResult | Send string

record conn_world =
  w_message :: NetMessage
  w_queue :: "nat list"
  w_trace :: "conn_event list"

definition log :: "conn_event \<Rightarrow> conn_world \<Rightarrow> conn_world" where
  "log ev w = w\<lparr>w_trace := w_trace w @ [ev]\<rparr>"

text \<open>
  The environment of one iteration of \<^verbatim>\<open>Connection.run\<close>: the answer of \<^verbatim>\<open>fcntl\<close> to the
  \<open>k\<close>-th \<^verbatim>\<open>is_valid()\<close> of the iteration, the text \<^verbatim>\<open>recv(1024)\<close> gives, the answer of
  \<^verbatim>\<open>send\<close>, and the other threads' effect on the message during \<^verbatim>\<open>wait()\<close>.
\<close>

record conn_env =
  ce_fcntl :: "nat \<Rightarrow> error + int"
  ce_recv :: "error + string"
  ce_send :: "string \<Rightarrow> error + nat"
  ce_wait :: "NetMessage \<Rightarrow> NetMessage option"

text \<open>\<^verbatim>\<open>TcpSocket.is_valid\<close>, for the \<open>k\<close>-th call of the iteration.\<close>

definition is_valid :: "conn_env \<Rightarrow> nat \<Rightarrow> error + bool" where
  "is_valid env k = (case ce_fcntl env k of Inl e \<Rightarrow> Inl e | Inr r \<Rightarrow> Inr (r \<noteq> - 1))"

text \<open>
  How an iteration of the loop ends: \<open>Next closed\<close> goes back to the loop condition
  \<^verbatim>\<open>while not closed\<close>, \<open>Break\<close> leaves the loop, \<open>Raise e\<close> ends the thread with an
  exception, \<open>Blocked\<close> is a thread that sleeps in \<^verbatim>\<open>get_result\<close> for ever.
\<close>

datatype outcome = Next bool | Break | Raise error | Blocked

text \<open>The last statement of the loop body; \<open>k\<close> counts the \<^verbatim>\<open>is_valid()\<close> calls so far.\<close>

definition Connection_tail :: "conn_env \<Rightarrow> nat \<Rightarrow> bool \<Rightarrow> conn_world \<Rightarrow> outcome \<times> conn_world" where
  "Connection_tail env k closed w =
     (if is_disconnect (w_message w) then (Break, w)
      else
        (case is_valid env k of
           Inl e \<Rightarrow> (Raise e, log IsValid w)
         | Inr v \<Rightarrow> (if \<not> v then (Break, log IsValid w) else (Next closed, log IsValid w))))"

text \<open>
  The branch taken when \<^verbatim>\<open>message.add(data)\<close> is true: put the message on the queue,
  wait for the result, send it.
\<close>

definition Connection_request ::
    "Connection \<Rightarrow> conn_env \<Rightarrow> bool \<Rightarrow> conn_world \<Rightarrow> outcome \<times> conn_world" where
  "Connection_request c env closed w =
     (let w1 = log Put (w\<lparr>w_queue := w_queue w @ [conn_id c]\<rparr>);
          w2 = log GetResult w1
      in case get_result (ce_wait env) (w_message w2) of
           None \<Rightarrow> (Blocked, w2)
         | Some (res, m) \<Rightarrow>
             (let w3 = log IsValid (w2\<lparr>w_message := m\<rparr>) in
              case is_valid env 1 of
                Inl e \<Rightarrow> (Raise e, w3)
              | Inr v \<Rightarrow>
                  (if \<not> v then (Break, w3)
                   else
                     (case res of
                        None \<Rightarrow> (Raise AttributeError, w3)
                      | Some r \<Rightarrow>
                          (case ce_send env r of
                             Inl e \<Rightarrow> (Raise e, log (Send r) w3)
                           | Inr n \<Rightarrow> Connection_tail env 2 closed (log (Send r) w3))))))"

text \<open>
  The body of \<^verbatim>\<open>if new_data or message.is_listening():\<close>.
\<close>

definition Connection_body ::
    "Connection \<Rightarrow> conn_env \<Rightarrow> bool \<Rightarrow> bool \<Rightarrow> conn_world \<Rightarrow> outcome \<times> conn_world" where
  "Connection_body c env new_data closed w =
     (let w1 = log IsValid w in
      case is_valid env 0 of
        Inl e \<Rightarrow> (Raise e, w1)
      | Inr v \<Rightarrow>
          (if \<not> v then (Break, w1)
           else
             (case (if new_data then ce_recv env else Inr []) of
                Inl e \<Rightarrow> (Raise e, log Recv w1)
              | Inr data \<Rightarrow>
                  (let w2 = (if new_data then log Recv w1 else w1) in
                   if new_data \<and> length data = 0 then (Break, w2)
                   else
                     (let (complete, m) = add (w_message w2) data;
                          w3 = log (Add data) (w2\<lparr>w_message := m\<rparr>)
                      in if complete then Connection_request c env closed w3
                         else Connection_tail env 1 closed w3)))))"

text \<open>
  One iteration of the loop of \<^verbatim>\<open>Connection.run\<close>, for the lists \<open>readable\<close> and
  \<open>exceptional\<close> that \<^verbatim>\<open>select\<close> returned.
\<close>

definition Connection_run_iter ::
    "Connection \<Rightarrow> conn_env \<Rightarrow> fd list \<Rightarrow> fd list \<Rightarrow> conn_world \<Rightarrow> outcome \<times> conn_world" where
  "Connection_run_iter c env readable exceptional w =
     (if notify_fd (conn_notify c) \<in> set (readable @ exceptional) then (Break, w)
      else
        (let new_data = (sock (conn_socket c) \<in> set readable);
             closed = (sock (conn_socket c) \<in> set exceptional)
         in if new_data \<or> truth_tuple (is_listening (w_message w))
            then Connection_body c env new_data closed w
            else (Next closed, w)))"

section \<open>Network\<close>

text \<open>
  The fields of \<^verbatim>\<open>Network\<close>. The queue holds references to messages: each entry is the
  address of a \<^verbatim>\<open>NetMessage\<close> in the store of messages, shared with the connection
  thread that put it there.
\<close>

type_synonym msg_ref = nat

record Network =
  net_notify :: Notify
  net_connections :: "Connection list"
  net_queue :: "msg_ref list"
  net_tcp_server :: "TcpServer option"
  net_http_server :: "TcpServer option"
  net_listening :: bool


text \<open>
  The environment of the loop of \<^verbatim>\<open>Network.run\<close>: the answer of \<^verbatim>\<open>accept()\<close> on a
  listening descriptor, the descriptors of the pipe of a new connection, and which
  connection threads are alive.
\<close>

record run_env =
  env_accept :: "fd \<Rightarrow> error + fd"
  env_pipe :: "fd \<times> fd"
  env_alive :: "nat \<Rightarrow> bool"

definition clean_connections :: "run_env \<Rightarrow> Network \<Rightarrow> Network" where
  "clean_connections env n =
     (let dead_conn = filter (\<lambda>conn. \<not> env_alive env (conn_id conn)) (net_connections n)
      in n\<lparr>net_connections :=
             filter (\<lambda>conn. conn_id conn \<notin> set (map conn_id dead_conn)) (net_connections n)\<rparr>)"

datatype loop_ctl = Continue | Return

text \<open>
  The two flags \<^verbatim>\<open>new_conn\<close> and \<^verbatim>\<open>is_http\<close> that an iteration computes from the
  list \<open>readable\<close>.
\<close>

definition which_listener :: "fd list \<Rightarrow> Network \<Rightarrow> error + bool \<times> bool" where
  "which_listener readable n =
     (case net_tcp_server n of
        None \<Rightarrow> Inl AttributeError
      | Some tcp \<Rightarrow>
          (case socket_fd tcp of
             Inl e \<Rightarrow> Inl e
           | Inr tfd \<Rightarrow>
               (if tfd \<in> set readable then Inr (True, False)
                else
                  (case net_http_server n of
                     None \<Rightarrow> Inr (False, False)
                   | Some http \<Rightarrow>
                       (case socket_fd http of
                          Inl e \<Rightarrow> Inl e
                        | Inr hfd \<Rightarrow>
                            (if hfd \<in> set readable then Inr (True, True)
                             else Inr (False, False)))))))"

text \<open>
  One iteration of the loop of \<^verbatim>\<open>Network.run\<close>, for the list \<open>readable\<close> that
  \<^verbatim>\<open>select\<close> returned. The state is the class counter of connection ids and the
  \<^verbatim>\<open>Network\<close> object.
\<close>

definition Network_run_iter ::
    "run_env \<Rightarrow> fd list \<Rightarrow> nat \<times> Network \<Rightarrow> (error + loop_ctl) \<times> (nat \<times> Network)" where
  "Network_run_iter env readable st =
     (let ids = fst st; n = snd st in
      if length readable = 0 then (Inr Continue, (ids, clean_connections env n))
      else if notify_fd (net_notify n) \<in> set readable then (Inr Return, st)
      else
        (case which_listener readable n of
           Inl e \<Rightarrow> (Inl e, st)
         | Inr (new_conn, http) \<Rightarrow>
             (if new_conn then
                (case net_tcp_server n of
                   None \<Rightarrow> (Inl AttributeError, st)
                 | Some tcp \<Rightarrow>
                     (case new_socket (env_accept env) tcp of
                        Inl e \<Rightarrow> (Inl e, st)
                      | Inr None \<Rightarrow> (Inr Continue, st)
                      | Inr (Some s) \<Rightarrow>
                          (let (conn, ids') = Connection_init (env_pipe env) s http ids
                           in (Inr Continue,
                               (ids', n\<lparr>net_connections := net_connections n @ [conn]\<rparr>)))))
              else (Inr Continue, st))))"

text \<open>
  \<^verbatim>\<open>Network.__del__\<close> on the store of messages \<open>heap\<close>. The trace lists the calls in
  the order the destructor makes them.
\<close>

datatype del_event =
  NotifySelf | Sleep | SetResult msg_ref | ConnStop nat | ConnJoin nat | JoinSelf

text \<open>
  The first loop: \<^verbatim>\<open>get_nowait()\<close> takes the oldest entry until the queue is empty, and
  each message taken gets the result \<^verbatim>\<open>"ERR: shutdown"\<close>.
\<close>

fun drain :: "msg_ref list \<Rightarrow> (msg_ref \<Rightarrow> NetMessage) \<Rightarrow> (msg_ref \<Rightarrow> NetMessage) \<times> del_event list" where
  "drain [] heap = (heap, [])"
| "drain (r # q) heap =
     (let heap1 = heap(r := snd (set_result ''ERR: shutdown'' False None True (heap r)));
          (heap2, evs) = drain q heap1
      in (heap2, SetResult r # evs))"

text \<open>The second loop: \<^verbatim>\<open>pop()\<close> takes the last connection; it is stopped and joined.\<close>

function stop_connections :: "Connection list \<Rightarrow> del_event list" where
  "stop_connections conns =
     (if length conns > 0 then
        (let conn = last conns; rest = butlast conns
         in [ConnStop (conn_id conn), ConnJoin (conn_id conn)] @ stop_connections rest)
      else [])"
  by pat_completeness auto
termination
  by (relation "measure length") auto

declare stop_connections.simps [simp del]

definition Network_del ::
    "(msg_ref \<Rightarrow> NetMessage) \<Rightarrow> Network \<Rightarrow> (msg_ref \<Rightarrow> NetMessage) \<times> Network \<times> del_event list" where
  "Network_del heap n =
     (let (heap1, drained) = drain (net_queue n) heap;
          stopped = stop_connections (net_connections n)
      in (heap1,
          n\<lparr>net_connections := [], net_queue := [],
            net_tcp_server := None, net_http_server := None\<rparr>,
          [NotifySelf, Sleep] @ drained @ stopped @ [JoinSelf]))"

section \<open>Example environments\<close>

text \<open>An operating system on which every call of \<^verbatim>\<open>start\<close> succeeds, with descriptor \<open>f\<close>.\<close>

definition ok_os :: "fd \<Rightarrow> os_net" where
  "ok_os f = \<lparr>os_socket = Inr f, os_setsockopt = (\<lambda>s. None),
              os_bind = (\<lambda>s a p. None), os_listen = (\<lambda>s b. None)\<rparr>"

text \<open>An operating system on which \<^verbatim>\<open>bind\<close> fails: the address is in use (errno 98).\<close>

definition busy_os :: "fd \<Rightarrow> os_net" where
  "busy_os f = \<lparr>os_socket = Inr f, os_setsockopt = (\<lambda>s. None),
                os_bind = (\<lambda>s a p. Some (OSError 98)), os_listen = (\<lambda>s b. None)\<rparr>"

text \<open>
  Two connections, and a \<^verbatim>\<open>Network\<close> with both servers listening (the plain server on
  descriptor 3, the HTTP server on descriptor 4), these two connections in its registry
  and the messages at the addresses 7 and 9 on its queue.
\<close>

definition example_conn :: Connection where
  "example_conn =
     \<lparr>conn_notify = \<lparr>recvfd = 11, sendfd = 12\<rparr>, conn_socket = \<lparr>sock = 13\<rparr>,
      conn_is_http = False, conn_id = 1\<rparr>"

definition example_conns :: "Connection list" where
  "example_conns =
     [example_conn,
      \<lparr>conn_notify = \<lparr>recvfd = 14, sendfd = 15\<rparr>, conn_socket = \<lparr>sock = 16\<rparr>,
       conn_is_http = False, conn_id = 2\<rparr>]"

definition example_net :: Network where
  "example_net =
     \<lparr>net_notify = \<lparr>recvfd = 1, sendfd = 2\<rparr>,
      net_connections = example_conns,
      net_queue = [7, 9],
      net_tcp_server = Some (snd (start (ok_os 3) (TcpServer_init 8888 ''127.0.0.1'' 5))),
      net_http_server = Some (snd (start (ok_os 4) (TcpServer_init 8080 [] 5))),
      net_listening = True\<rparr>"

text \<open>
  \<^verbatim>\<open>accept()\<close> gives descriptor 10 on the plain listener and descriptor 20 on the HTTP
  listener; every connection thread is alive.
\<close>

definition example_env :: run_env where
  "example_env =
     \<lparr>env_accept = (\<lambda>l. if l = 3 then Inr 10 else if l = 4 then Inr 20 else Inl (OSError 9)),
      env_pipe = (5, 6),
      env_alive = (\<lambda>i. True)\<rparr>"

text \<open>
  A store in which every message holds the request \<^verbatim>\<open>"ping"\<close>, has no result yet, and
  has its connection thread asleep in \<^verbatim>\<open>get_result\<close>.
\<close>

definition waiting_heap :: "msg_ref \<Rightarrow> NetMessage" where
  "waiting_heap r = (NetMessage_init False)\<lparr>waiters := 1, request := ''ping''\<rparr>"

text \<open>
  An idle connection: nothing to receive, nobody posts a result, and \<^verbatim>\<open>fcntl\<close> answers
  as \<open>fcntl\<close> says. Its message is fresh: not in listening mode.
\<close>

definition idle_env :: "(nat \<Rightarrow> error + int) \<Rightarrow> conn_env" where
  "idle_env fcntl =
     \<lparr>ce_fcntl = fcntl, ce_recv = Inr [], ce_send = (\<lambda>s. Inr (length s)), ce_wait = never\<rparr>"

definition idle_world :: conn_world where
  "idle_world = \<lparr>w_message = NetMessage_init False, w_queue = [], w_trace = []\<rparr>"

section \<open>Facts about the string functions\<close>

lemma find_from_first:
  "x \<notin> set a \<Longrightarrow> find_from (a @ x # rest) [x] i = int (i + length a)"
  by (induction a arbitrary: i) auto


lemma NL_replace_cr: "NL \<in> set (replace_cr s) \<longleftrightarrow> NL \<in> set s"
  by (auto simp: replace_cr_def)




section \<open>The framer\<close>





text \<open>
  Claim C2, as amended. In plain mode, when the buffer (the accumulated request and the
  fragment without carriage returns) has its first newline before its last character,
  \<^verbatim>\<open>add\<close> returns true and the request keeps the whole buffer: nothing is cut off.
\<close>

theorem add_plain_mid_newline:
  assumes "\<not> is_http m" and "request m @ replace_cr req = a @ NL # b"
    and "NL \<notin> set a" and "b \<noteq> []"
  shows "add m req = (True, m\<lparr>request := a @ NL # b\<rparr>)"
proof -
  have pos: "str_find (a @ NL # b) [NL] = int (length a)"
    using find_from_first [OF assms(3), of b 0] by (simp add: str_find_def)
  show ?thesis
    using assms(1,2,4) by (simp add: add_def pos)
qed

text \<open>The amended claim C2 at the fragment \<^verbatim>\<open>"a\nb"\<close>.\<close>

theorem add_plain_mid_newline_witness:
  "\<not> is_http (NetMessage_init False) \<and>
   request (NetMessage_init False) @ replace_cr (''a'' @ [NL] @ ''b'') = ''a'' @ NL # ''b'' \<and>
   NL \<notin> set ''a'' \<and> ''b'' \<noteq> [] \<and>
   add (NetMessage_init False) (''a'' @ [NL] @ ''b'') =
     (True, (NetMessage_init False)\<lparr>request := ''a'' @ NL # ''b''\<rparr>)"
  using add_plain_mid_newline [of "NetMessage_init False" "''a'' @ [NL] @ ''b''" "''a''" "''b''"]
  by (simp add: NetMessage_init_def replace_cr_def)

text \<open>
  Claim C2 as stated fails: for the fragment \<^verbatim>\<open>"a\nb"\<close> the newline is found at index 1,
  which is not the end of the buffer; \<^verbatim>\<open>add\<close> returns true and the request is still
  \<^verbatim>\<open>"a\nb"\<close>, not \<^verbatim>\<open>"a"\<close>.
\<close>

theorem add_plain_mid_newline_counterexample:
  "str_find (''a'' @ [NL] @ ''b'') [NL] = 1 \<and>
   (1::int) + 1 \<noteq> int (length (''a'' @ [NL] @ ''b'')) \<and>
   fst (add (NetMessage_init False) (''a'' @ [NL] @ ''b'')) \<and>
   request (snd (add (NetMessage_init False) (''a'' @ [NL] @ ''b''))) = ''a'' @ [NL] @ ''b'' \<and>
   request (snd (add (NetMessage_init False) (''a'' @ [NL] @ ''b''))) \<noteq> ''a''"
  by (simp add: add_def NetMessage_init_def replace_cr_def str_find_def slice_to_def)

text \<open>
  Claim C7. In plain mode, for a message with an empty accumulator and every text \<open>r\<close>
  without a newline, the fragment \<open>r\<close> followed by a newline makes \<^verbatim>\<open>add\<close> return true,
  and the stored request is \<open>r\<close> without its carriage returns: the newline is stripped.
\<close>

theorem add_plain_line:
  assumes "\<not> is_http m" and "request m = []" and "NL \<notin> set r"
  shows "add m (r @ [NL]) = (True, m\<lparr>request := replace_cr r\<rparr>)"
proof -
  have nl: "NL \<notin> set (replace_cr r)"
    using assms(3) by (simp add: NL_replace_cr)
  have acc: "replace_cr (r @ [NL]) = replace_cr r @ [NL]"
    by (simp add: replace_cr_def)
  have pos: "str_find (replace_cr r @ [NL]) [NL] = int (length (replace_cr r))"
    using find_from_first [OF nl, of "[]" 0] by (simp add: str_find_def)
  show ?thesis
    using assms(1,2) by (simp add: add_def acc pos slice_to_def)
qed

text \<open>Claim C7 at the line \<^verbatim>\<open>"ping\r\n"\<close>.\<close>

theorem add_plain_line_witness:
  "\<not> is_http (NetMessage_init False) \<and> request (NetMessage_init False) = [] \<and>
   NL \<notin> set (''ping'' @ [CR]) \<and>
   add (NetMessage_init False) ((''ping'' @ [CR]) @ [NL]) =
     (True, (NetMessage_init False)\<lparr>request := ''ping''\<rparr>)"
  using add_plain_line [of "NetMessage_init False" "''ping'' @ [CR]"]
  by (simp add: NetMessage_init_def replace_cr_def)

section \<open>Posting and awaiting a result\<close>


text \<open>
  Claim C6. After \<^verbatim>\<open>set_result\<close> has posted \<open>res\<close>, \<^verbatim>\<open>get_result\<close> returns \<open>res\<close>
  without waiting, and leaves the request empty and the result slot \<^verbatim>\<open>None\<close>. The same
  holds when the thread already sleeps in \<^verbatim>\<open>wait()\<close> and the result is posted then.
  \<^verbatim>\<open>set_result\<close> sets the four fields in its one transition, and wakes one thread when
  any thread waits (at most one, and none when none waits).
\<close>

theorem set_result_get_result:
  "get_result env (snd (set_result res lst listen_until disc m)) =
     Some (Some res,
           (snd (set_result res lst listen_until disc m))\<lparr>request := [], result := None\<rparr>)
   \<and> get_result (posted res lst listen_until disc) (m\<lparr>result := None\<rparr>) =
     Some (Some res, m\<lparr>listening := lst, listen_since := listen_until, disconnect := disc,
                        request := [], result := None\<rparr>)
   \<and> result (snd (set_result res lst listen_until disc m)) = Some res
   \<and> listening (snd (set_result res lst listen_until disc m)) = lst
   \<and> listen_since (snd (set_result res lst listen_until disc m)) = listen_until
   \<and> disconnect (snd (set_result res lst listen_until disc m)) = disc
   \<and> fst (set_result res lst listen_until disc m) = min 1 (waiters m)"
  by (simp add: get_result_def set_result_def notify_one_def posted_def cond_wait_def Let_def)

section \<open>Starting the servers\<close>

lemma start_except_raises: "fst (start_except e s) = Inl e"
  by (cases e) (simp_all add: start_except_def)

lemma start_listening: "fst (start os s) = Inr () \<Longrightarrow> srv_listening (snd (start os s))"
  by (auto simp: start_def Let_def start_except_raises split: if_splits sum.splits option.splits)

text \<open>A failing \<^verbatim>\<open>bind\<close> and a failing \<^verbatim>\<open>listen\<close> make \<^verbatim>\<open>start\<close> raise the error.\<close>

lemma start_bind_error:
  assumes "\<not> srv_listening s" and "os_socket os = Inr f" and "os_setsockopt os f = None"
    and "os_bind os f (srv_addr s) (srv_port s) = Some e"
  shows "fst (start os s) = Inl e"
  using assms by (simp add: start_def start_except_raises)

lemma start_listen_error:
  assumes "\<not> srv_listening s" and "os_socket os = Inr f" and "os_setsockopt os f = None"
    and "os_bind os f (srv_addr s) (srv_port s) = None"
    and "os_listen os f (srv_backlog s) = Some e"
  shows "fst (start os s) = Inl e"
  using assms by (simp add: start_def start_except_raises)



text \<open>
  Claim C10. On a server that is listening, \<^verbatim>\<open>start\<close> returns at once and leaves the
  object as it was, whatever the operating system would answer; so a second
  \<^verbatim>\<open>start\<close> gives what the first gave.
\<close>

theorem start_idempotent:
  assumes "srv_listening s"
  shows "start os s = (Inr (), s) \<and> start os' (snd (start os s)) = start os s"
  using assms by (simp add: start_def)

text \<open>
  Claim C10 for a server that a successful \<^verbatim>\<open>start\<close> has made listening; the second
  \<^verbatim>\<open>start\<close> does not even reach the \<^verbatim>\<open>bind\<close> that would fail.
\<close>

theorem start_idempotent_witness:
  "srv_listening (snd (start (ok_os 3) (TcpServer_init 8888 ''127.0.0.1'' 5))) \<and>
   start (busy_os 4) (snd (start (ok_os 3) (TcpServer_init 8888 ''127.0.0.1'' 5))) =
     (Inr (), snd (start (ok_os 3) (TcpServer_init 8888 ''127.0.0.1'' 5)))"
  using start_idempotent [of "snd (start (ok_os 3) (TcpServer_init 8888 ''127.0.0.1'' 5))"
      "busy_os 4" "busy_os 4"]
  by (simp add: start_def ok_os_def TcpServer_init_def)

section \<open>The run loops\<close>

text \<open>
  Claim C3, evaluated on the code. Only the HTTP listener (descriptor 4) is readable.
  The iteration sets \<^verbatim>\<open>new_conn\<close> and \<^verbatim>\<open>is_http\<close>, and then accepts from the plain
  server: the new connection holds descriptor 10, which \<^verbatim>\<open>accept()\<close> gave on the plain
  listener (descriptor 3), and is tagged as HTTP. The connection that waits on the HTTP
  listener (descriptor 20) is not accepted.
\<close>

theorem Network_run_iter_http_ready:
  "which_listener [4] example_net = Inr (True, True) \<and>
   env_accept example_env 3 = Inr 10 \<and>
   env_accept example_env 4 = Inr 20 \<and>
   Network_run_iter example_env [4] (2, example_net) =
     (Inr Continue,
      (3, example_net\<lparr>net_connections := example_conns @
            [\<lparr>conn_notify = \<lparr>recvfd = 5, sendfd = 6\<rparr>, conn_socket = \<lparr>sock = 10\<rparr>,
              conn_is_http = True, conn_id = 3\<rparr>]\<rparr>))"
  by (simp add: Network_run_iter_def which_listener_def socket_fd_def new_socket_def
      Connection_init_def example_net_def example_env_def start_def ok_os_def
      TcpServer_init_def notify_fd_def Let_def)

text \<open>
  Claim C4, evaluated on the code. Nothing is readable and the message is not in
  listening mode, yet the body runs: \<^verbatim>\<open>is_listening()\<close> returns a pair, and a pair is
  true in a condition. The thread calls \<^verbatim>\<open>is_valid()\<close>, feeds the empty fragment to
  \<^verbatim>\<open>add\<close> and calls \<^verbatim>\<open>is_valid()\<close> again; when \<^verbatim>\<open>fcntl\<close> raises, the thread ends
  with the exception instead of going back to \<^verbatim>\<open>select\<close>.
\<close>

theorem Connection_run_iter_idle:
  "fst (is_listening (w_message idle_world)) = False \<and>
   Connection_run_iter example_conn (idle_env (\<lambda>k. Inr 0)) [] [] idle_world =
     (Next False, idle_world\<lparr>w_trace := [IsValid, Add [], IsValid]\<rparr>) \<and>
   Connection_run_iter example_conn (idle_env (\<lambda>k. Inl (OSError 9))) [] [] idle_world =
     (Raise (OSError 9), idle_world\<lparr>w_trace := [IsValid]\<rparr>)"
  by (simp add: Connection_run_iter_def Connection_body_def Connection_tail_def
      truth_tuple_def tuple_len_def is_listening_def is_disconnect_def is_valid_def
      add_def replace_cr_def str_find_def log_def notify_fd_def
      example_conn_def idle_env_def idle_world_def NetMessage_init_def Let_def)

section \<open>Teardown\<close>

lemma drain_Cons_fst:
  "fst (drain (a # q) heap) =
     fst (drain q (heap(a := snd (set_result ''ERR: shutdown'' False None True (heap a)))))"
  by (simp add: Let_def case_prod_beta)

lemma drain_Cons_snd:
  "snd (drain (a # q) heap) =
     SetResult a # snd (drain q (heap(a := snd (set_result ''ERR: shutdown'' False None True (heap a)))))"
  by (simp add: Let_def case_prod_beta)

lemma drain_trace: "snd (drain q heap) = map SetResult q"
proof (induction q arbitrary: heap)
  case Nil
  show ?case by simp
next
  case (Cons a q)
  show ?case unfolding drain_Cons_snd by (simp add: Cons.IH)
qed

lemma drain_other: "r \<notin> set q \<Longrightarrow> fst (drain q heap) r = heap r"
proof (induction q arbitrary: heap)
  case Nil
  show ?case by simp
next
  case (Cons a q)
  then show ?case unfolding drain_Cons_fst by simp
qed

lemma set_result_fields:
  "snd (set_result res lst listen_until disc m) =
     m\<lparr>result := Some res, listening := lst, listen_since := listen_until, disconnect := disc,
       waiters := waiters m - min 1 (waiters m)\<rparr>"
  by (simp add: set_result_def notify_one_def Let_def)

lemma drain_waiters: "waiters (fst (drain q heap) r) \<le> waiters (heap r)"
proof (induction q arbitrary: heap)
  case Nil
  show ?case by simp
next
  case (Cons a q)
  let ?h = "heap(a := snd (set_result ''ERR: shutdown'' False None True (heap a)))"
  have "waiters (fst (drain q ?h) r) \<le> waiters (?h r)" by (rule Cons.IH)
  also have "waiters (?h r) \<le> waiters (heap r)" by (simp add: set_result_fields)
  finally show ?case unfolding drain_Cons_fst .
qed

lemma drain_posted:
  "r \<in> set q \<Longrightarrow>
     result (fst (drain q heap) r) = Some ''ERR: shutdown'' \<and>
     disconnect (fst (drain q heap) r) \<and>
     waiters (fst (drain q heap) r) \<le> waiters (heap r) - 1"
proof (induction q arbitrary: heap)
  case Nil
  then show ?case by simp
next
  case (Cons a q)
  define h where "h = heap(a := snd (set_result ''ERR: shutdown'' False None True (heap a)))"
  have step: "fst (drain (a # q) heap) = fst (drain q h)"
    unfolding h_def by (rule drain_Cons_fst)
  show ?case
  proof (cases "r \<in> set q")
    case True
    have le: "waiters (h r) \<le> waiters (heap r)"
      by (simp add: h_def set_result_fields)
    from Cons.IH [OF True, of h]
    have res: "result (fst (drain q h) r) = Some ''ERR: shutdown''"
      and dis: "disconnect (fst (drain q h) r)"
      and wt: "waiters (fst (drain q h) r) \<le> waiters (h r) - 1"
      by simp_all
    from wt le have "waiters (fst (drain q h) r) \<le> waiters (heap r) - 1"
      by arith
    with res dis show ?thesis
      unfolding step by simp
  next
    case False
    with Cons.prems have ra: "r = a" by simp
    from False have same: "fst (drain q h) r = h r" by (rule drain_other)
    have "result (h r) = Some ''ERR: shutdown'' \<and> disconnect (h r)
          \<and> waiters (h r) \<le> waiters (heap r) - 1"
      using ra by (simp add: h_def set_result_fields)
    then show ?thesis
      unfolding step same .
  qed
qed

lemma stop_connections_snoc:
  "stop_connections (cs @ [c]) = [ConnStop (conn_id c), ConnJoin (conn_id c)] @ stop_connections cs"
  by (subst stop_connections.simps) simp

lemma stop_connections_Nil: "stop_connections [] = []"
  by (subst stop_connections.simps) simp

lemma stop_connections_trace:
  "stop_connections cs = concat (map (\<lambda>c. [ConnStop (conn_id c), ConnJoin (conn_id c)]) (rev cs))"
  by (induction cs rule: rev_induct) (simp_all add: stop_connections_Nil stop_connections_snoc)

text \<open>
  Claim C8. After \<^verbatim>\<open>Network.__del__\<close>, every message \<open>r\<close> that was on the queue has
  the result \<^verbatim>\<open>"ERR: shutdown"\<close> and the disconnect flag; a thread that slept in its
  \<^verbatim>\<open>get_result\<close> has been woken, and \<^verbatim>\<open>get_result\<close> on it returns the sentinel even
  if nobody ever notifies again. The queue is empty, and in the order of calls every
  \<^verbatim>\<open>set_result\<close> of the drain comes before the first \<^verbatim>\<open>stop\<close> and \<^verbatim>\<open>join\<close> of a
  connection.
\<close>

theorem Network_del_drains:
  assumes "r \<in> set (net_queue n)"
  shows "result (fst (Network_del heap n) r) = Some ''ERR: shutdown''
       \<and> disconnect (fst (Network_del heap n) r)
       \<and> waiters (fst (Network_del heap n) r) \<le> waiters (heap r) - 1
       \<and> map_option fst (get_result never (fst (Network_del heap n) r)) = Some (Some ''ERR: shutdown'')
       \<and> snd (snd (Network_del heap n)) =
           [NotifySelf, Sleep] @ map SetResult (net_queue n)
           @ concat (map (\<lambda>c. [ConnStop (conn_id c), ConnJoin (conn_id c)]) (rev (net_connections n)))
           @ [JoinSelf]
       \<and> net_queue (fst (snd (Network_del heap n))) = []"
proof -
  have h: "fst (Network_del heap n) = fst (drain (net_queue n) heap)"
    by (simp add: Network_del_def Let_def case_prod_beta)
  have t: "snd (snd (Network_del heap n)) =
             [NotifySelf, Sleep] @ snd (drain (net_queue n) heap)
             @ stop_connections (net_connections n) @ [JoinSelf]"
    by (simp add: Network_del_def Let_def case_prod_beta)
  have q: "net_queue (fst (snd (Network_del heap n))) = []"
    by (simp add: Network_del_def Let_def case_prod_beta)
  note p = drain_posted [OF assms, of heap]
  have g: "map_option fst (get_result never (fst (drain (net_queue n) heap) r)) = Some (Some ''ERR: shutdown'')"
    using p by (simp add: get_result_def Let_def)
  show ?thesis
    unfolding h t q using p g by (simp add: drain_trace stop_connections_trace)
qed


text \<open>
  Claim C8 for the example: two queued messages whose threads sleep, two connections.
\<close>

theorem Network_del_drains_witness:
  "7 \<in> set (net_queue example_net) \<and>
   result (fst (Network_del waiting_heap example_net) 7) = Some ''ERR: shutdown'' \<and>
   disconnect (fst (Network_del waiting_heap example_net) 7) \<and>
   waiters (waiting_heap 7) = 1 \<and>
   waiters (fst (Network_del waiting_heap example_net) 7) = 0 \<and>
   map_option fst (get_result never (fst (Network_del waiting_heap example_net) 7))
     = Some (Some ''ERR: shutdown'') \<and>
   snd (snd (Network_del waiting_heap example_net)) =
     [NotifySelf, Sleep, SetResult 7, SetResult 9,
      ConnStop 2, ConnJoin 2, ConnStop 1, ConnJoin 1, JoinSelf]"
  using Network_del_drains [of 7 example_net waiting_heap]
  by (simp add: example_net_def example_conns_def example_conn_def waiting_heap_def
      NetMessage_init_def)

end
